theory Spec2Isabelle
  imports Main "HOL-Library.AList" "HOL-Library.Sublist"
begin

section \<open>Values, errors and outcomes\<close>

text \<open>
  The manifest engine of \<^verbatim>\<open>config/merge.go\<close> works on untyped YAML data
  (\<^verbatim>\<open>interface{}\<close>). The dynamic types that the code distinguishes are the
  constructors of \<open>yaml\<close>: the nil interface, strings, booleans, integers,
  \<^verbatim>\<open>[]interface{}\<close>, \<^verbatim>\<open>map[interface{}]interface{}\<close> (keys of compose
  manifests are strings) and the typed string slice \<^verbatim>\<open>yaml.MaporEqualSlice\<close>
  that \<^verbatim>\<open>readEnvFile\<close> stores. A floating-point scalar is to this code one
  more scalar that is neither a string nor a container, as an integer is, and has no
  constructor of its own. A Go string is a sequence of bytes, as \<open>string\<close> is.

  A Go map is an association list with distinct keys; the order of the list
  stands for the order in which \<^verbatim>\<open>range\<close> visits the map.
\<close>

datatype yaml =
    Null
  | Str string
  | Bool bool
  | Num int
  | Seq "yaml list"
  | Map "(string \<times> yaml) list"
  | EnvSlice "string list"

type_synonym RawService = "(string \<times> yaml) list"
type_synonym RawServiceMap = "(string \<times> RawService) list"

datatype NumErr = ErrSyntax | ErrRange

text \<open>
  Go error values: \<^verbatim>\<open>fmt.Errorf\<close>/\<^verbatim>\<open>errors.New\<close> with their message,
  \<^verbatim>\<open>*strconv.NumError\<close> with its fields \<^verbatim>\<open>Func\<close>, \<^verbatim>\<open>Num\<close>, \<^verbatim>\<open>Err\<close>,
  and \<^verbatim>\<open>bufio.ErrTooLong\<close>.
\<close>

datatype error =
    Errorf string
  | NumError string string NumErr
  | ErrTooLong

section \<open>Library functions of Go used by the code\<close>

text \<open>\<^verbatim>\<open>strings.Split(s, sep)\<close> for a one-byte separator: the pieces between
  the separators, one more than there are separators.\<close>

fun Split :: "string \<Rightarrow> char \<Rightarrow> string list" where
  "Split [] sep = [[]]"
| "Split (c # cs) sep =
     (if c = sep then [] # Split cs sep
      else (c # hd (Split cs sep)) # tl (Split cs sep))"

text \<open>\<^verbatim>\<open>strconv.Atoi\<close> on a 64-bit platform: an optional sign, then decimal
  digits read left to right by \<^verbatim>\<open>ParseUint\<close>, which stops at the first byte
  that is no digit (syntax error) or at the first overflow of 64 bits (range error);
  then the range of \<^verbatim>\<open>int\<close> is checked. (On a 32-bit platform \<open>intSize\<close>
  is 32 and the range is smaller; nothing but the range errors depends on it.)\<close>

definition intSize :: nat where
  "intSize = 64"

definition isDigit :: "char \<Rightarrow> bool" where
  "isDigit c = ((48::nat) \<le> of_char c \<and> of_char c \<le> (57::nat))"

definition digitVal :: "char \<Rightarrow> nat" where
  "digitVal c = of_char c - 48"

fun ParseUint :: "string \<Rightarrow> nat \<Rightarrow> NumErr + nat" where
  "ParseUint [] n = Inr n"
| "ParseUint (c # cs) n =
     (if \<not> isDigit c then Inl ErrSyntax
      else if n \<ge> (2 ^ 64 - 1) div 10 + 1 then Inl ErrRange
      else if n * 10 + digitVal c > 2 ^ 64 - 1 then Inl ErrRange
      else ParseUint cs (n * 10 + digitVal c))"

definition Atoi :: "string \<Rightarrow> error + int" where
  "Atoi s =
     (if s = [] then Inl (NumError ''Atoi'' s ErrSyntax)
      else
        let neg = (hd s = CHR ''-'');
            body = (if hd s = CHR ''+'' \<or> hd s = CHR ''-'' then tl s else s)
        in if body = [] then Inl (NumError ''Atoi'' s ErrSyntax)
           else (case ParseUint body 0 of
                   Inl e \<Rightarrow> Inl (NumError ''Atoi'' s e)
                 | Inr un \<Rightarrow>
                     if \<not> neg \<and> un \<ge> 2 ^ (intSize - 1) then Inl (NumError ''Atoi'' s ErrRange)
                     else if neg \<and> un > 2 ^ (intSize - 1) then Inl (NumError ''Atoi'' s ErrRange)
                     else Inr (if neg then - int un else int un)))"

section \<open>Version classification\<close>

definition getComposeMajorVersion :: "string \<Rightarrow> error + int" where
  "getComposeMajorVersion version =
     (if version = [] then Inr 1
      else
        let parts = Split version CHR ''.''
        in if length parts = 1 then Atoi version
           else if length parts = 2 then Atoi (parts ! 0)
           else Inl (Errorf (''Invalid version string, expected single integer or dot delimited int.int. Got: '' @ version)))"

section \<open>Environment files\<close>

subsection \<open>Strings and the line scanner\<close>

text \<open>\<^verbatim>\<open>strings.HasPrefix(s, p)\<close>.\<close>

definition HasPrefix :: "string \<Rightarrow> string \<Rightarrow> bool" where
  "HasPrefix s p = prefix p s"

text \<open>\<^verbatim>\<open>strings.SplitAfter(s, sep)\<close> for a one-byte separator: as \<open>Split\<close>,
  but each piece keeps the separator that ends it.\<close>

fun SplitAfter :: "string \<Rightarrow> char \<Rightarrow> string list" where
  "SplitAfter [] sep = [[]]"
| "SplitAfter (c # cs) sep =
     (if c = sep then [c] # SplitAfter cs sep
      else (c # hd (SplitAfter cs sep)) # tl (SplitAfter cs sep))"

text \<open>
  \<^verbatim>\<open>strings.TrimSpace\<close> removes the leading, then the trailing white space,
  where white space is \<^verbatim>\<open>unicode.IsSpace\<close> on the runes of the UTF-8 string.
  The table lists the UTF-8 encodings of these runes: tab, line feed, vertical tab,
  form feed, carriage return, space, U+0085, U+00A0, U+1680, U+2000 to U+200A,
  U+2028, U+2029, U+202F, U+205F and U+3000. No encoding is a prefix or a suffix of
  another, a string that starts with one decodes to that rune first, and one that
  ends with one decodes to that rune last.
\<close>

definition spaceRunes :: "string list" where
  "spaceRunes =
     [[CHR 0x09], [CHR 0x0A], [CHR 0x0B], [CHR 0x0C], [CHR 0x0D], [CHR 0x20],
      [CHR 0xC2, CHR 0x85], [CHR 0xC2, CHR 0xA0],
      [CHR 0xE1, CHR 0x9A, CHR 0x80],
      [CHR 0xE2, CHR 0x80, CHR 0x80], [CHR 0xE2, CHR 0x80, CHR 0x81],
      [CHR 0xE2, CHR 0x80, CHR 0x82], [CHR 0xE2, CHR 0x80, CHR 0x83],
      [CHR 0xE2, CHR 0x80, CHR 0x84], [CHR 0xE2, CHR 0x80, CHR 0x85],
      [CHR 0xE2, CHR 0x80, CHR 0x86], [CHR 0xE2, CHR 0x80, CHR 0x87],
      [CHR 0xE2, CHR 0x80, CHR 0x88], [CHR 0xE2, CHR 0x80, CHR 0x89],
      [CHR 0xE2, CHR 0x80, CHR 0x8A],
      [CHR 0xE2, CHR 0x80, CHR 0xA8], [CHR 0xE2, CHR 0x80, CHR 0xA9],
      [CHR 0xE2, CHR 0x80, CHR 0xAF],
      [CHR 0xE2, CHR 0x81, CHR 0x9F],
      [CHR 0xE3, CHR 0x80, CHR 0x80]]"

text \<open>The number of bytes of the rune of \<open>runes\<close> that \<open>s\<close> starts with, 0 if
  it starts with none.\<close>

definition runeWidth :: "string list \<Rightarrow> string \<Rightarrow> nat" where
  "runeWidth runes s =
     (case find (\<lambda>w. prefix w s) runes of None \<Rightarrow> 0 | Some w \<Rightarrow> length w)"

fun trimLeft :: "string list \<Rightarrow> string \<Rightarrow> string" where
  "trimLeft runes [] = []"
| "trimLeft runes (c # cs) =
     (if runeWidth runes (c # cs) = 0 then c # cs
      else trimLeft runes (drop (runeWidth runes (c # cs) - 1) cs))"

definition TrimSpace :: "string \<Rightarrow> string" where
  "TrimSpace s = rev (trimLeft (map rev spaceRunes) (rev (trimLeft spaceRunes s)))"

text \<open>
  \<^verbatim>\<open>bufio.Scanner\<close> with its default split function \<^verbatim>\<open>ScanLines\<close>, over
  the whole content: the lines between line feeds, each without a trailing carriage
  return; what follows the last line feed is a line unless it is empty. A line of
  \<^verbatim>\<open>MaxScanTokenSize\<close> bytes or more does not fit the scanner's buffer: the scan
  stops there and \<^verbatim>\<open>scanner.Err()\<close> is \<^verbatim>\<open>ErrTooLong\<close>. The result is the
  lines scanned and the scanner's error.
\<close>

definition MaxScanTokenSize :: nat where
  "MaxScanTokenSize = 64 * 1024"

definition dropCR :: "string \<Rightarrow> string" where
  "dropCR data = (if data \<noteq> [] \<and> last data = CHR 0x0D then butlast data else data)"

fun scanTokens :: "string list \<Rightarrow> string list \<times> error option" where
  "scanTokens [] = ([], None)"
| "scanTokens (l # ls) =
     (if length l \<ge> MaxScanTokenSize then ([], Some ErrTooLong)
      else (dropCR l # fst (scanTokens ls), snd (scanTokens ls)))"

definition ScanLines :: "string \<Rightarrow> string list \<times> error option" where
  "ScanLines content =
     (let pieces = Split content CHR 0x0A
      in scanTokens (if last pieces = [] then butlast pieces else pieces))"

subsection \<open>readEnvFile\<close>

text \<open>
  \<^verbatim>\<open>ResourceLookup.Lookup(file, relativeTo)\<close> returns the content and the resolved
  name, or an error; a nil \<^verbatim>\<open>ResourceLookup\<close> is \<open>None\<close>.

  \<^verbatim>\<open>utils.Convert\<close> into \<^verbatim>\<open>yaml.Stringorslice\<close> and into
  \<^verbatim>\<open>yaml.MaporEqualSlice\<close> live in other packages; \<open>readEnvFile\<close> takes them
  as the two fields of \<open>converters\<close>.
\<close>

type_synonym ResourceLookup = "string \<Rightarrow> string \<Rightarrow> error + (string \<times> string)"

record converters =
  toStringorslice :: "yaml \<Rightarrow> error + string list"
  toMaporEqualSlice :: "yaml \<Rightarrow> error + string list"

text \<open>The body of the scanner loop (lines 240 to 256): one scanned line against the
  entries collected so far.\<close>

definition scanStep :: "string \<Rightarrow> string list \<Rightarrow> string list" where
  "scanStep text vars =
     (let line = TrimSpace text
      in if length line > 0 \<and> \<not> HasPrefix line ''#'' then
           (let key = SplitAfter line CHR ''='' ! 0;
                found = list_ex (\<lambda>v. HasPrefix v key) vars
            in if \<not> found then vars @ [line] else vars)
         else vars)"

text \<open>The loop over the files, \<open>i\<close> from \<open>len(envFiles) - 1\<close> down to 0; the
  argument \<open>n\<close> is \<open>i + 1\<close>.\<close>

fun envFileLoop ::
  "ResourceLookup \<Rightarrow> string \<Rightarrow> string list \<Rightarrow> nat \<Rightarrow> string list \<Rightarrow> error + string list" where
  "envFileLoop lookup inFile envFiles 0 vars = Inr vars"
| "envFileLoop lookup inFile envFiles (Suc i) vars =
     (let envFile = envFiles ! i
      in case lookup envFile inFile of
           Inl err \<Rightarrow> Inl err
         | Inr (content, _) \<Rightarrow>
             (case ScanLines content of
                (lines, Some err) \<Rightarrow> Inl err
              | (lines, None) \<Rightarrow>
                  envFileLoop lookup inFile envFiles i (fold scanStep lines vars)))"

definition readEnvFile ::
  "converters \<Rightarrow> ResourceLookup option \<Rightarrow> string \<Rightarrow> RawService \<Rightarrow> error + RawService" where
  "readEnvFile cv resourceLookup inFile serviceData =
     (case map_of serviceData ''env_file'' of
        None \<Rightarrow> Inr serviceData
      | Some ef \<Rightarrow>
          (case toStringorslice cv ef of
             Inl err \<Rightarrow> Inl err
           | Inr envFiles \<Rightarrow>
               if length envFiles = 0 then Inr serviceData
               else
                 (case resourceLookup of
                    None \<Rightarrow>
                      Inl (Errorf (''Can not use env_file in file '' @ inFile
                                   @ '' no mechanism provided to load files''))
                  | Some lookup \<Rightarrow>
                      (case (case map_of serviceData ''environment'' of
                               None \<Rightarrow> Inr []
                             | Some e \<Rightarrow> toMaporEqualSlice cv e) of
                         Inl err \<Rightarrow> Inl err
                       | Inr vars \<Rightarrow>
                           (case envFileLoop lookup inFile envFiles (length envFiles) vars of
                              Inl err \<Rightarrow> Inl err
                            | Inr vars' \<Rightarrow>
                                Inr (AList.update ''environment'' (EnvSlice vars') serviceData))))))"

section \<open>Merging raw services\<close>

text \<open>
  Modelled from the spec: the helper \<^verbatim>\<open>merge(existing, value)\<close> that
  \<^verbatim>\<open>mergeConfig\<close> calls is not among the sources. Section 4.4 of the
  specification gives its rule: two sequences concatenate, the base elements first;
  two mappings merge key by key, an incoming key overriding or extending the base by
  the same rule; in every other case the incoming value wins. The call at line 273
  hands it the two values and nothing else, so the helper takes two arguments and the
  name of the field is not among them.
\<close>

fun merge :: "yaml \<Rightarrow> yaml \<Rightarrow> yaml" where
  "merge (Seq left) (Seq right) = Seq (left @ right)"
| "merge (Map left) (Map right) =
     Map (fold (\<lambda>(k, v) acc.
                  case map_of acc k of
                    Some existing \<Rightarrow> AList.update k (merge existing v) acc
                  | None \<Rightarrow> AList.update k v acc)
               right left)"
| "merge existing v = v"

definition noMerge :: "string list" where
  "noMerge = [''links'', ''volumes_from'']"

definition mergeConfig :: "RawService \<Rightarrow> RawService \<Rightarrow> RawService" where
  "mergeConfig baseService serviceData =
     fold (\<lambda>(k, v) baseService.
             case map_of baseService k of
               Some existing \<Rightarrow> AList.update k (merge existing v) baseService
             | None \<Rightarrow> AList.update k v baseService)
          serviceData baseService"

section \<open>The Merge pipeline\<close>

subsection \<open>Data and collaborators\<close>

text \<open>
  A Go map that the code tests against nil, or returns as nil, is an optional
  association list: \<open>None\<close> is the nil map, and \<^verbatim>\<open>range\<close> over it visits
  nothing.
\<close>

type_synonym 'v gomap = "(string \<times> 'v) list option"

definition entries :: "'v gomap \<Rightarrow> (string \<times> 'v) list" where
  "entries m = (case m of None \<Rightarrow> [] | Some kvs \<Rightarrow> kvs)"

text \<open>
  Of \<^verbatim>\<open>ServiceConfig\<close> the code touches the field \<^verbatim>\<open>Restart\<close>; the other
  fields are the extension of the record. The version 1 service configuration and
  the volume and network configurations are only handed on and stay opaque.
  \<^verbatim>\<open>ServiceConfigs\<close>, the services merged so far, is a collection of service
  configurations by name.
\<close>

typedecl ServiceConfigV1
typedecl VolumeConfig
typedecl NetworkConfig

record ServiceConfig =
  Restart :: string

type_synonym 'a svcmap = "'a ServiceConfig_scheme gomap"
type_synonym 'a ServiceConfigs = "(string \<times> 'a ServiceConfig_scheme) list"

text \<open>
  Modelled from the spec: the interface \<^verbatim>\<open>EnvironmentLookup\<close> is declared in a
  file that is not among the sources. Section 6 of the specification gives it as
  \<^verbatim>\<open>Lookup(name)\<close>, returning the value of a variable and whether it is defined.
\<close>

type_synonym EnvironmentLookup = "string \<Rightarrow> string option"

record Config =
  Version :: string
  Services :: RawServiceMap
  Volumes :: "yaml gomap"
  Networks :: "yaml gomap"

record 'a ParseOptions =
  Interpolate :: bool
  Validate :: bool
  Preprocess :: "(RawServiceMap \<Rightarrow> error + RawServiceMap) option"
  Postprocess :: "('a svcmap \<Rightarrow> error + 'a svcmap) option"

definition defaultParseOptions :: "'a ParseOptions" where
  "defaultParseOptions =
     \<lparr>Interpolate = True, Validate = True, Preprocess = None, Postprocess = None\<rparr>"

text \<open>
  The functions of other packages and files that \<open>Merge\<close> calls:
  \<^verbatim>\<open>yaml.Unmarshal\<close> into a \<^verbatim>\<open>Config\<close> and into a \<^verbatim>\<open>RawServiceMap\<close>,
  \<^verbatim>\<open>Interpolate\<close> (which rewrites the value it is given a pointer to),
  \<^verbatim>\<open>MergeServicesV2\<close>, \<^verbatim>\<open>MergeServicesV1\<close>, \<^verbatim>\<open>ConvertServices\<close>, and
  \<^verbatim>\<open>utils.Convert\<close> into the volume and the network configurations.
\<close>

record 'a collaborators =
  yamlUnmarshalConfig :: "string \<Rightarrow> error + Config"
  yamlUnmarshalServices :: "string \<Rightarrow> error + RawServiceMap"
  Interpolate_fn :: "string \<Rightarrow> yaml \<Rightarrow> EnvironmentLookup \<Rightarrow> error + yaml"
  MergeServicesV2 ::
    "'a ServiceConfigs \<Rightarrow> EnvironmentLookup \<Rightarrow> ResourceLookup option \<Rightarrow> string
       \<Rightarrow> RawServiceMap \<Rightarrow> 'a ParseOptions \<Rightarrow> error + 'a svcmap"
  MergeServicesV1 ::
    "'a ServiceConfigs \<Rightarrow> EnvironmentLookup \<Rightarrow> ResourceLookup option \<Rightarrow> string
       \<Rightarrow> RawServiceMap \<Rightarrow> 'a ParseOptions \<Rightarrow> error + ServiceConfigV1 gomap"
  ConvertServices :: "ServiceConfigV1 gomap \<Rightarrow> error + 'a svcmap"
  ConvertVolumes :: "yaml gomap \<Rightarrow> error + VolumeConfig gomap"
  ConvertNetworks :: "yaml gomap \<Rightarrow> error + NetworkConfig gomap"

text \<open>
  A call of \<open>Merge\<close> ends in one of three ways: it returns its five results, it
  panics, or \<^verbatim>\<open>logrus.Fatal\<close> logs its message and ends the process with
  \<^verbatim>\<open>os.Exit(1)\<close>.
\<close>

datatype 'r outcome = Returned 'r | Panicked string | Exited string

type_synonym 'a MergeResult =
  "string \<times> 'a svcmap \<times> VolumeConfig gomap \<times> NetworkConfig gomap \<times> error option"

subsection \<open>CreateConfig\<close>

definition CreateConfig :: "'a collaborators \<Rightarrow> string \<Rightarrow> error + Config" where
  "CreateConfig D bytes =
     (case yamlUnmarshalConfig D bytes of
        Inl err \<Rightarrow> Inl err
      | Inr config \<Rightarrow>
          (case getComposeMajorVersion (Version config) of
             Inl err \<Rightarrow> Inl err
           | Inr major \<Rightarrow>
               (case (if major < 2 then
                        (case yamlUnmarshalServices D bytes of
                           Inl err \<Rightarrow> Inl err
                         | Inr baseRawServices \<Rightarrow> Inr (config\<lparr>Services := baseRawServices\<rparr>))
                      else Inr config) of
                  Inl err \<Rightarrow> Inl err
                | Inr config \<Rightarrow>
                    Inr (config
                          \<lparr>Volumes := (if Volumes config = None then Some [] else Volumes config),
                           Networks := (if Networks config = None then Some [] else Networks config)\<rparr>))))"

subsection \<open>The extends shorthand (lines 90 to 100)\<close>

text \<open>
  \<^verbatim>\<open>reflect.TypeOf(value).Kind() == reflect.String\<close>: \<^verbatim>\<open>reflect.TypeOf\<close> of the
  nil interface is the nil \<^verbatim>\<open>Type\<close>, and the call of \<^verbatim>\<open>Kind\<close> on it panics.
\<close>

definition kindIsString :: "yaml \<Rightarrow> string + bool" where
  "kindIsString value =
     (case value of
        Null \<Rightarrow> Inl ''runtime error: invalid memory address or nil pointer dereference''
      | Str _ \<Rightarrow> Inr True
      | _ \<Rightarrow> Inr False)"

text \<open>The inner loop over the fields of one service: a field is visited, and where
  the test holds its value is replaced under the same key.\<close>

fun extendsFields :: "RawService \<Rightarrow> string + RawService" where
  "extendsFields [] = Inr []"
| "extendsFields ((key, value) # rest) =
     (case (if key = ''extends'' then kindIsString value else Inr False) of
        Inl p \<Rightarrow> Inl p
      | Inr isString \<Rightarrow>
          (case extendsFields rest of
             Inl p \<Rightarrow> Inl p
           | Inr rest' \<Rightarrow>
               Inr ((key, if isString then Map [(''service'', value)] else value) # rest')))"

fun normalizeExtends :: "RawServiceMap \<Rightarrow> string + RawServiceMap" where
  "normalizeExtends [] = Inr []"
| "normalizeExtends ((service, data) # rest) =
     (case extendsFields data of
        Inl p \<Rightarrow> Inl p
      | Inr data' \<Rightarrow>
          (case normalizeExtends rest of
             Inl p \<Rightarrow> Inl p
           | Inr rest' \<Rightarrow> Inr ((service, data') # rest')))"

subsection \<open>Interpolation\<close>

text \<open>The loop \<^verbatim>\<open>for k, v := range m { if err := Interpolate(k, &v, lookup); err != nil
  { return err }; m[k] = v }\<close>, which the code runs over the fields of each service,
  over the volumes and over the networks.\<close>

fun interpolateEntries ::
  "(string \<Rightarrow> yaml \<Rightarrow> EnvironmentLookup \<Rightarrow> error + yaml) \<Rightarrow> EnvironmentLookup
     \<Rightarrow> (string \<times> yaml) list \<Rightarrow> error + (string \<times> yaml) list" where
  "interpolateEntries f environmentLookup [] = Inr []"
| "interpolateEntries f environmentLookup ((k, v) # rest) =
     (case f k v environmentLookup of
        Inl err \<Rightarrow> Inl err
      | Inr v' \<Rightarrow>
          (case interpolateEntries f environmentLookup rest of
             Inl err \<Rightarrow> Inl err
           | Inr rest' \<Rightarrow> Inr ((k, v') # rest')))"

fun InterpolateRawServiceMap ::
  "'a collaborators \<Rightarrow> RawServiceMap \<Rightarrow> EnvironmentLookup \<Rightarrow> error + RawServiceMap" where
  "InterpolateRawServiceMap D [] environmentLookup = Inr []"
| "InterpolateRawServiceMap D ((k, v) # rest) environmentLookup =
     (case interpolateEntries (Interpolate_fn D) environmentLookup v of
        Inl err \<Rightarrow> Inl err
      | Inr v' \<Rightarrow>
          (case InterpolateRawServiceMap D rest environmentLookup of
             Inl err \<Rightarrow> Inl err
           | Inr rest' \<Rightarrow> Inr ((k, v') # rest')))"

subsection \<open>adjustValues\<close>

definition adjustValues :: "'a svcmap \<Rightarrow> 'a svcmap" where
  "adjustValues configs =
     map_option
       (map (\<lambda>(k, v). (k, if Restart v = ''false'' then v\<lparr>Restart := ''no''\<rparr> else v)))
       configs"

subsection \<open>Merge\<close>

text \<open>\<^verbatim>\<open>return "", nil, nil, nil, err\<close>.\<close>

definition failure :: "error \<Rightarrow> 'a MergeResult outcome" where
  "failure err = Returned ('''', None, None, None, Some err)"

text \<open>Lines 102 to 120: with \<^verbatim>\<open>options.Interpolate\<close>, the raw services, then the
  volumes, then the networks are interpolated in place.\<close>

definition interpolateMap ::
  "(string \<Rightarrow> yaml \<Rightarrow> EnvironmentLookup \<Rightarrow> error + yaml) \<Rightarrow> EnvironmentLookup
     \<Rightarrow> yaml gomap \<Rightarrow> error + yaml gomap" where
  "interpolateMap f environmentLookup m =
     (case m of
        None \<Rightarrow> Inr None
      | Some kvs \<Rightarrow>
          (case interpolateEntries f environmentLookup kvs of
             Inl err \<Rightarrow> Inl err
           | Inr kvs' \<Rightarrow> Inr (Some kvs')))"

definition interpolateStage ::
  "'a collaborators \<Rightarrow> 'a ParseOptions \<Rightarrow> EnvironmentLookup \<Rightarrow> RawServiceMap \<Rightarrow> Config
     \<Rightarrow> error + (RawServiceMap \<times> Config)" where
  "interpolateStage D options environmentLookup baseRawServices config =
     (if Interpolate options then
        (case InterpolateRawServiceMap D baseRawServices environmentLookup of
           Inl err \<Rightarrow> Inl err
         | Inr baseRawServices' \<Rightarrow>
             (case interpolateMap (Interpolate_fn D) environmentLookup (Volumes config) of
                Inl err \<Rightarrow> Inl err
              | Inr volumes \<Rightarrow>
                  (case interpolateMap (Interpolate_fn D) environmentLookup (Networks config) of
                     Inl err \<Rightarrow> Inl err
                   | Inr networks \<Rightarrow>
                       Inr (baseRawServices', config\<lparr>Volumes := volumes, Networks := networks\<rparr>))))
      else Inr (baseRawServices, config))"

text \<open>Lines 122 to 128 and 158 to 164: a hook runs when it is not nil.\<close>

definition runHook :: "('x \<Rightarrow> error + 'x) option \<Rightarrow> 'x \<Rightarrow> error + 'x" where
  "runHook hook x = (case hook of None \<Rightarrow> Inr x | Some h \<Rightarrow> h x)"

definition Merge ::
  "'a collaborators \<Rightarrow> 'a ServiceConfigs \<Rightarrow> EnvironmentLookup \<Rightarrow> ResourceLookup option
     \<Rightarrow> string \<Rightarrow> string \<Rightarrow> 'a ParseOptions option \<Rightarrow> 'a MergeResult outcome" where
  "Merge D existingServices environmentLookup resourceLookup file bytes options0 =
     (let options = (case options0 of None \<Rightarrow> defaultParseOptions | Some opts \<Rightarrow> opts)
      in case CreateConfig D bytes of
           Inl err \<Rightarrow> failure err
         | Inr config0 \<Rightarrow>
      (case normalizeExtends (Services config0) of
           Inl p \<Rightarrow> Panicked p
         | Inr normalized \<Rightarrow>
      (case interpolateStage D options environmentLookup normalized config0 of
           Inl err \<Rightarrow> failure err
         | Inr (interpolated, config) \<Rightarrow>
      (case runHook (Preprocess options) interpolated of
           Inl err \<Rightarrow> failure err
         | Inr baseRawServices \<Rightarrow>
      (case getComposeMajorVersion (Version config) of
           Inl err \<Rightarrow> failure err
         | Inr major \<Rightarrow>
             if major = 3 then Exited ''Note: Compose file version 3 is not yet implemented''
             else
      (case (if major = 2 then
               MergeServicesV2 D existingServices environmentLookup resourceLookup file
                 baseRawServices options
             else
               (case MergeServicesV1 D existingServices environmentLookup resourceLookup file
                       baseRawServices options of
                  Inl err \<Rightarrow> Inl err
                | Inr serviceConfigsV1 \<Rightarrow> ConvertServices D serviceConfigsV1)) of
           Inl err \<Rightarrow> failure err
         | Inr merged \<Rightarrow>
      (case runHook (Postprocess options) (adjustValues merged) of
           Inl err \<Rightarrow> failure err
         | Inr serviceConfigs \<Rightarrow>
      (case ConvertVolumes D (Volumes config) of
           Inl err \<Rightarrow> failure err
         | Inr volumes \<Rightarrow>
      (case ConvertNetworks D (Networks config) of
           Inl err \<Rightarrow> failure err
         | Inr networks \<Rightarrow>
             Returned (Version config, serviceConfigs, volumes, networks, None))))))))))"

section \<open>Vocabulary of the statements\<close>

text \<open>A trimmed line counts as an entry when it is neither empty nor a comment; its
  key is the first piece of \<^verbatim>\<open>strings.SplitAfter(line, "=")\<close>: the text up to and
  including the first equals sign, or the whole line when it has none.\<close>

definition isEntry :: "string \<Rightarrow> bool" where
  "isEntry line = (length line > 0 \<and> \<not> HasPrefix line ''#'')"

definition envKey :: "string \<Rightarrow> string" where
  "envKey line = SplitAfter line CHR ''='' ! 0"

text \<open>The lines that the scanner yields for one referenced file, whether the file
  can be fetched and scanned without error, and the lines of all the files, the
  last-listed file first.\<close>

definition fileLines :: "ResourceLookup \<Rightarrow> string \<Rightarrow> string \<Rightarrow> string list" where
  "fileLines lookup inFile envFile =
     (case lookup envFile inFile of
        Inl err \<Rightarrow> []
      | Inr (content, resolved) \<Rightarrow> fst (ScanLines content))"

definition loadsCleanly :: "ResourceLookup \<Rightarrow> string \<Rightarrow> string \<Rightarrow> bool" where
  "loadsCleanly lookup inFile envFile =
     (case lookup envFile inFile of
        Inl err \<Rightarrow> False
      | Inr (content, resolved) \<Rightarrow> snd (ScanLines content) = None)"

definition envTexts :: "ResourceLookup \<Rightarrow> string \<Rightarrow> string list \<Rightarrow> string list" where
  "envTexts lookup inFile envFiles = concat (map (fileLines lookup inFile) (rev envFiles))"

text \<open>The explicit entries of a service: none without an \<^verbatim>\<open>environment\<close> field,
  else what the field converts to.\<close>

definition explicitEnvironment :: "converters \<Rightarrow> RawService \<Rightarrow> error + string list" where
  "explicitEnvironment cv serviceData =
     (case map_of serviceData ''environment'' of
        None \<Rightarrow> Inr []
      | Some e \<Rightarrow> toMaporEqualSlice cv e)"

text \<open>The options that a call of \<open>Merge\<close> works with: the default options when
  the caller passes nil.\<close>

definition optionsOrDefault :: "'a ParseOptions option \<Rightarrow> 'a ParseOptions" where
  "optionsOrDefault options =
     (case options of None \<Rightarrow> defaultParseOptions | Some opts \<Rightarrow> opts)"

text \<open>The rewriting of one field by the extends normaliser, in closed form.\<close>

definition canonicalExtends :: "string \<Rightarrow> yaml \<Rightarrow> yaml" where
  "canonicalExtends key value =
     (case value of
        Str name \<Rightarrow> if key = ''extends'' then Map [(''service'', value)] else value
      | _ \<Rightarrow> value)"

section \<open>Collaborators of the examples\<close>

text \<open>
  Modelled from the spec: \<^verbatim>\<open>utils.Convert\<close> and the types
  \<^verbatim>\<open>yaml.Stringorslice\<close> and \<^verbatim>\<open>yaml.MaporEqualSlice\<close> are not among the
  sources. Section 4.5 has the first normalise \<^verbatim>\<open>env_file\<close> into an ordered
  sequence of file references and the second seed an ordered list of
  \<^verbatim>\<open>KEY=VALUE\<close> entries from the \<^verbatim>\<open>environment\<close> field. The examples use a
  single string and sequences of strings; the conversions below cover these forms
  and fail on every other value.
\<close>

fun stringsOf :: "yaml list \<Rightarrow> error + string list" where
  "stringsOf [] = Inr []"
| "stringsOf (Str s # rest) =
     (case stringsOf rest of Inl err \<Rightarrow> Inl err | Inr ss \<Rightarrow> Inr (s # ss))"
| "stringsOf (v # rest) = Inl (Errorf ''Cannot unmarshal to string'')"

definition asStringorslice :: "yaml \<Rightarrow> error + string list" where
  "asStringorslice v =
     (case v of
        Str s \<Rightarrow> Inr [s]
      | Seq vs \<Rightarrow> stringsOf vs
      | _ \<Rightarrow> Inl (Errorf ''Failed to unmarshal Stringorslice''))"

definition asMaporEqualSlice :: "yaml \<Rightarrow> error + string list" where
  "asMaporEqualSlice v =
     (case v of
        Seq vs \<Rightarrow> stringsOf vs
      | EnvSlice ss \<Rightarrow> Inr ss
      | _ \<Rightarrow> Inl (Errorf ''Failed to unmarshal MaporEqualSlice''))"

definition exampleConverters :: converters where
  "exampleConverters =
     \<lparr>toStringorslice = asStringorslice, toMaporEqualSlice = asMaporEqualSlice\<rparr>"

text \<open>A resource lookup over a fixed table of files.\<close>

definition tableLookup :: "(string \<times> string) list \<Rightarrow> ResourceLookup" where
  "tableLookup files envFile inFile =
     (case map_of files envFile of
        None \<Rightarrow> Inl (Errorf (''Failed to find '' @ envFile))
      | Some content \<Rightarrow> Inr (content, envFile))"

text \<open>Collaborators for the examples of \<open>Merge\<close>: the parser yields a given result,
  interpolation finds no variable reference and leaves each value as it is, the
  version adapters yield a given service map, and the manifest declares neither
  volumes nor networks.\<close>

definition exampleCollaborators :: "error + Config \<Rightarrow> 'a svcmap \<Rightarrow> 'a collaborators" where
  "exampleCollaborators parsed services =
     \<lparr>yamlUnmarshalConfig = (\<lambda>bytes. parsed),
      yamlUnmarshalServices = (\<lambda>bytes. map_sum id Services parsed),
      Interpolate_fn = (\<lambda>key value environmentLookup. Inr value),
      MergeServicesV2 = (\<lambda>existing environmentLookup resourceLookup file raw options. Inr services),
      MergeServicesV1 = (\<lambda>existing environmentLookup resourceLookup file raw options. Inr (Some [])),
      ConvertServices = (\<lambda>v1. Inr services),
      ConvertVolumes = (\<lambda>volumes. Inr (Some [])),
      ConvertNetworks = (\<lambda>networks. Inr (Some []))\<rparr>"

definition exampleManifest :: "string \<Rightarrow> RawServiceMap \<Rightarrow> Config" where
  "exampleManifest version services =
     \<lparr>Version = version, Services = services, Volumes = None, Networks = None\<rparr>"

section \<open>Properties of the version classification\<close>

lemma Split_not_Nil: "Split s sep \<noteq> []"
  by (induction s) auto

lemma length_Split: "length (Split s sep) = Suc (count_list s sep)"
  by (induction s) (auto simp: Split_not_Nil)

lemma hd_Split: "hd (Split s sep) = takeWhile (\<lambda>c. c \<noteq> sep) s"
  by (induction s) auto

lemma Split_no_sep: "sep \<notin> set s \<Longrightarrow> Split s sep = [s]"
  by (induction s) auto

text \<open>The classification by the number of dots of the version string: none, the
  whole string is read as an integer; one, the text before the dot is read and the
  text after it is not looked at; more, the format error.\<close>

lemma getComposeMajorVersion_shape:
  "getComposeMajorVersion version =
     (if version = [] then Inr 1
      else if count_list version CHR ''.'' = 0 then Atoi version
      else if count_list version CHR ''.'' = 1
           then Atoi (takeWhile (\<lambda>c. c \<noteq> CHR ''.'') version)
      else Inl (Errorf (''Invalid version string, expected single integer or dot delimited int.int. Got: '' @ version)))"
  using hd_Split [of version "CHR ''.''"] Split_not_Nil [of version "CHR ''.''"]
  by (simp add: getComposeMajorVersion_def Let_def length_Split hd_conv_nth)

lemma getComposeMajorVersion_examples:
  "getComposeMajorVersion '''' = Inr 1"
  "getComposeMajorVersion ''2'' = Inr 2"
  "getComposeMajorVersion ''2.1'' = Inr 2"
  "getComposeMajorVersion ''3'' = Inr 3"
  "getComposeMajorVersion ''1.2.3'' =
     Inl (Errorf ''Invalid version string, expected single integer or dot delimited int.int. Got: 1.2.3'')"
  "getComposeMajorVersion ''two'' = Inl (NumError ''Atoi'' ''two'' ErrSyntax)"
  by (simp_all add: getComposeMajorVersion_def Atoi_def isDigit_def digitVal_def intSize_def)

text \<open>
  C4. Major-version classification is to yield 1 for the empty string, the integer
  for a single integer token, the first component for two dot-delimited integer
  tokens, and a format error for every other shape, among them strings with a token
  that is no integer. The function's own error message names the accepted shapes,
  a single integer or dot delimited int.int. At the version string \<^verbatim>\<open>2.x\<close>, whose
  second token is no integer, the code reports no error: it reads the first token
  only and answers major version 2.
\<close>

theorem getComposeMajorVersion_second_token_unchecked:
  "getComposeMajorVersion ''2.x'' = Inr 2"
  by (simp add: getComposeMajorVersion_def Atoi_def isDigit_def digitVal_def intSize_def)

section \<open>Properties of readEnvFile\<close>

subsection \<open>The scanner loop\<close>

lemma SplitAfter_not_Nil: "SplitAfter s sep \<noteq> []"
  by (induction s) auto

lemma SplitAfter_hd_prefix: "prefix (hd (SplitAfter s sep)) s"
  by (induction s) auto

lemma envKey_prefix: "HasPrefix line (envKey line)"
  using SplitAfter_hd_prefix [of line "CHR ''=''"] SplitAfter_not_Nil [of line "CHR ''=''"]
  by (simp add: HasPrefix_def envKey_def hd_conv_nth)

lemma scanStep_cases:
  "scanStep text vars =
     (if isEntry (TrimSpace text) \<and> \<not> (\<exists>v\<in>set vars. HasPrefix v (envKey (TrimSpace text)))
      then vars @ [TrimSpace text] else vars)"
  by (auto simp: scanStep_def isEntry_def envKey_def Let_def list_ex_iff)

lemma fold_scanStep_snoc:
  "fold scanStep (texts @ [t]) vars =
     (if isEntry (TrimSpace t) \<and> \<not> (\<exists>v\<in>set (fold scanStep texts vars). HasPrefix v (envKey (TrimSpace t)))
      then fold scanStep texts vars @ [TrimSpace t] else fold scanStep texts vars)"
  using scanStep_cases [of t "fold scanStep texts vars"] by simp

lemma fold_scanStep_prefix: "prefix vars (fold scanStep texts vars)"
proof (induction texts rule: rev_induct)
  case Nil show ?case by simp
next
  case (snoc t texts)
  then show ?case unfolding fold_scanStep_snoc by auto
qed

lemma fold_scanStep_subseq:
  "subseq (drop (length vars) (fold scanStep texts vars)) (filter isEntry (map TrimSpace texts))"
proof (induction texts rule: rev_induct)
  case Nil show ?case by simp
next
  case (snoc t texts)
  have len: "length vars \<le> length (fold scanStep texts vars)"
    using fold_scanStep_prefix [of vars texts] by (simp add: prefix_length_le)
  show ?case
  proof (cases "isEntry (TrimSpace t) \<and> \<not> (\<exists>v\<in>set (fold scanStep texts vars). HasPrefix v (envKey (TrimSpace t)))")
    case True
    then show ?thesis unfolding fold_scanStep_snoc using snoc len by (simp add: subseq_append)
  next
    case False
    have "subseq (filter isEntry (map TrimSpace texts)) (filter isEntry (map TrimSpace (texts @ [t])))"
      by (auto intro!: prefix_imp_subseq)
    with snoc have h: "subseq (drop (length vars) (fold scanStep texts vars)) (filter isEntry (map TrimSpace (texts @ [t])))"
      using subseq_order.trans by blast
    from False have eq: "fold scanStep (texts @ [t]) vars = fold scanStep texts vars"
      unfolding fold_scanStep_snoc by auto
    show ?thesis unfolding eq by (rule h)
  qed
qed

lemma fold_scanStep_claimed:
  "\<forall>l\<in>set (filter isEntry (map TrimSpace texts)). \<exists>v\<in>set (fold scanStep texts vars). HasPrefix v (envKey l)"
proof (induction texts rule: rev_induct)
  case Nil show ?case by simp
next
  case (snoc t texts)
  then show ?case unfolding fold_scanStep_snoc using envKey_prefix by auto
qed

lemma fold_scanStep_first:
  "\<forall>i. length vars \<le> i \<and> i < length (fold scanStep texts vars) \<longrightarrow>
       (\<forall>j<i. \<not> HasPrefix (fold scanStep texts vars ! j) (envKey (fold scanStep texts vars ! i)))"
proof (induction texts rule: rev_induct)
  case Nil show ?case by auto
next
  case (snoc t texts)
  let ?r = "fold scanStep texts vars"
  show ?case
  proof (cases "isEntry (TrimSpace t) \<and> \<not> (\<exists>v\<in>set ?r. HasPrefix v (envKey (TrimSpace t)))")
    case False
    then have "fold scanStep (texts @ [t]) vars = ?r"
      unfolding fold_scanStep_snoc by auto
    then show ?thesis using snoc by simp
  next
    case True
    then have eq: "fold scanStep (texts @ [t]) vars = ?r @ [TrimSpace t]"
      unfolding fold_scanStep_snoc by simp
    show ?thesis unfolding eq
    proof (intro allI impI)
      fix i j assume a: "length vars \<le> i \<and> i < length (?r @ [TrimSpace t])" and j: "j < i"
      show "\<not> HasPrefix ((?r @ [TrimSpace t]) ! j) (envKey ((?r @ [TrimSpace t]) ! i))"
      proof (cases "i < length ?r")
        case True
        then show ?thesis using snoc a j by (simp add: nth_append)
      next
        case False
        then have i: "i = length ?r" using a by simp
        then have "?r ! j \<in> set ?r" using j by simp
        then show ?thesis using True i j by (auto simp: nth_append)
      qed
    qed
  qed
qed

lemma envFileLoop_clean:
  "n \<le> length envFiles \<Longrightarrow> \<forall>f\<in>set (take n envFiles). loadsCleanly lookup inFile f \<Longrightarrow>
   envFileLoop lookup inFile envFiles n vars =
     Inr (fold scanStep (concat (map (fileLines lookup inFile) (rev (take n envFiles)))) vars)"
proof (induction n arbitrary: vars)
  case 0
  show ?case by simp
next
  case (Suc i)
  then have i: "i < length envFiles" by simp
  have tk: "take (Suc i) envFiles = take i envFiles @ [envFiles ! i]"
    using i by (simp add: take_Suc_conv_app_nth)
  from Suc.prems(2) have cl: "loadsCleanly lookup inFile (envFiles ! i)"
    and rest: "\<forall>f\<in>set (take i envFiles). loadsCleanly lookup inFile f"
    unfolding tk by simp_all
  from cl obtain content resolved where lk: "lookup (envFiles ! i) inFile = Inr (content, resolved)"
    and sc: "snd (ScanLines content) = None"
    by (auto simp: loadsCleanly_def split: sum.splits)
  have fl: "fileLines lookup inFile (envFiles ! i) = fst (ScanLines content)"
    by (simp add: fileLines_def lk)
  obtain ls where sl: "ScanLines content = (ls, None)"
    using sc by (cases "ScanLines content") simp
  have "envFileLoop lookup inFile envFiles (Suc i) vars =
          envFileLoop lookup inFile envFiles i (fold scanStep ls vars)"
    by (simp add: lk sl)
  also have "\<dots> = Inr (fold scanStep (concat (map (fileLines lookup inFile) (rev (take i envFiles)))) (fold scanStep ls vars))"
    using Suc.IH [OF _ rest] i by simp
  finally show ?case unfolding tk by (simp add: fl sl)
qed


lemmas eval_strings =
  ScanLines_def MaxScanTokenSize_def dropCR_def TrimSpace_def runeWidth_def spaceRunes_def
  HasPrefix_def scanStep_def Let_def

lemmas eval_converters =
  exampleConverters_def asStringorslice_def asMaporEqualSlice_def explicitEnvironment_def
  tableLookup_def

subsection \<open>The early returns\<close>

text \<open>
  C9. A service without an \<^verbatim>\<open>env_file\<close> field, and a service whose
  \<^verbatim>\<open>env_file\<close> field converts to the empty sequence, come back from
  \<open>readEnvFile\<close> as they went in, every field untouched, and without an error;
  whether a resource lookup was supplied plays no part.
\<close>

theorem readEnvFile_without_env_files:
  assumes "map_of serviceData ''env_file'' = None
           \<or> (\<exists>ef. map_of serviceData ''env_file'' = Some ef \<and> toStringorslice cv ef = Inr [])"
  shows "readEnvFile cv resourceLookup inFile serviceData = Inr serviceData"
  using assms by (auto simp: readEnvFile_def)

theorem readEnvFile_without_env_files_witness:
  "readEnvFile exampleConverters None ''docker-compose.yml''
     [(''image'', Str ''busybox''), (''environment'', Seq [Str ''A=1''])]
   = Inr [(''image'', Str ''busybox''), (''environment'', Seq [Str ''A=1''])]
   \<and> readEnvFile exampleConverters None ''docker-compose.yml''
     [(''env_file'', Seq []), (''environment'', Seq [Str ''A=1''])]
   = Inr [(''env_file'', Seq []), (''environment'', Seq [Str ''A=1''])]"
  using
    readEnvFile_without_env_files
      [of "[(''image'', Str ''busybox''), (''environment'', Seq [Str ''A=1''])]"
          exampleConverters None "''docker-compose.yml''"]
    readEnvFile_without_env_files
      [of "[(''env_file'', Seq []), (''environment'', Seq [Str ''A=1''])]"
          exampleConverters None "''docker-compose.yml''"]
  by (simp add: eval_converters)

text \<open>
  C8. When the \<^verbatim>\<open>env_file\<close> field of a service converts to a sequence that is
  not empty and no resource lookup was supplied (it is nil), \<open>readEnvFile\<close> fails,
  and the message of its error names the manifest file that refers to the
  environment files.
\<close>

theorem readEnvFile_nil_lookup:
  assumes "map_of serviceData ''env_file'' = Some ef"
    and "toStringorslice cv ef = Inr envFiles"
    and "envFiles \<noteq> []"
  shows "readEnvFile cv None inFile serviceData =
           Inl (Errorf (''Can not use env_file in file '' @ inFile
                        @ '' no mechanism provided to load files''))"
  using assms by (simp add: readEnvFile_def)

theorem readEnvFile_nil_lookup_witness:
  "readEnvFile exampleConverters None ''docker-compose.yml'' [(''env_file'', Str ''web.env'')]
   = Inl (Errorf ''Can not use env_file in file docker-compose.yml no mechanism provided to load files'')"
  using readEnvFile_nil_lookup
    [of "[(''env_file'', Str ''web.env'')]" "Str ''web.env''" exampleConverters "[''web.env'']"
        "''docker-compose.yml''"]
  by (simp add: eval_converters)

subsection \<open>Precedence of the entries\<close>

text \<open>
  C2, as the code has it. Take a service whose \<^verbatim>\<open>env_file\<close> field converts to a
  sequence that is not empty, a resource lookup that fetches every listed file, with
  every fetched file scanned to its end without a scanner error (no line of 65536
  bytes or more), and an \<^verbatim>\<open>environment\<close> field that is absent or converts to the
  explicit entries. Then \<open>readEnvFile\<close> succeeds and stores under
  \<^verbatim>\<open>environment\<close> a list that begins with the explicit entries and goes on with
  lines of the files, the last-listed file first. The lines are trimmed of white
  space; empty lines and lines that start with \<^verbatim>\<open>#\<close> are skipped. A line is
  appended exactly when no entry already in the list starts with the line's key, so
  every key met is claimed by some entry of the result, and no appended entry has an
  earlier entry that starts with its key: the explicit entries win over the
  last-listed file, which wins over the files listed before it.
\<close>

theorem readEnvFile_precedence:
  assumes ef: "map_of serviceData ''env_file'' = Some ef"
    and conv: "toStringorslice cv ef = Inr envFiles"
    and ne: "envFiles \<noteq> []"
    and clean: "\<forall>f\<in>set envFiles. loadsCleanly lookup inFile f"
    and expl: "explicitEnvironment cv serviceData = Inr explicit"
  shows "\<exists>vars. readEnvFile cv (Some lookup) inFile serviceData
                   = Inr (AList.update ''environment'' (EnvSlice vars) serviceData)
          \<and> vars = fold scanStep (envTexts lookup inFile envFiles) explicit
          \<and> prefix explicit vars
          \<and> subseq (drop (length explicit) vars)
                    (filter isEntry (map TrimSpace (envTexts lookup inFile envFiles)))
          \<and> (\<forall>l\<in>set (filter isEntry (map TrimSpace (envTexts lookup inFile envFiles))).
                \<exists>v\<in>set vars. HasPrefix v (envKey l))
          \<and> (\<forall>i. length explicit \<le> i \<and> i < length vars \<longrightarrow>
                (\<forall>j<i. \<not> HasPrefix (vars ! j) (envKey (vars ! i))))"
proof -
  let ?vars = "fold scanStep (envTexts lookup inFile envFiles) explicit"
  have loop: "envFileLoop lookup inFile envFiles (length envFiles) explicit = Inr ?vars"
    using envFileLoop_clean [of "length envFiles" envFiles lookup inFile explicit] clean
    by (simp add: envTexts_def)
  have "readEnvFile cv (Some lookup) inFile serviceData
          = Inr (AList.update ''environment'' (EnvSlice ?vars) serviceData)"
    using ef conv ne expl loop by (simp add: readEnvFile_def explicitEnvironment_def)
  then show ?thesis
    using fold_scanStep_prefix [of explicit "envTexts lookup inFile envFiles"]
      fold_scanStep_subseq [of explicit "envTexts lookup inFile envFiles"]
      fold_scanStep_claimed [of "envTexts lookup inFile envFiles" explicit]
      fold_scanStep_first [of explicit "envTexts lookup inFile envFiles"]
    by blast
qed

text \<open>The example of the specification: the explicit entry \<^verbatim>\<open>A=1\<close>, the file
  \<^verbatim>\<open>f1\<close> with the line \<^verbatim>\<open>A=2\<close> and the file \<^verbatim>\<open>f2\<close> with the line
  \<^verbatim>\<open>B=3\<close> and a comment.\<close>

theorem readEnvFile_precedence_witness:
  "readEnvFile exampleConverters
     (Some (tableLookup [(''f1'', ''A=2''),
                         (''f2'', CHR ''B'' # CHR ''='' # CHR ''3'' # CHR 0x0A # '' # none'')]))
     ''docker-compose.yml''
     [(''environment'', Seq [Str ''A=1'']), (''env_file'', Seq [Str ''f1'', Str ''f2''])]
   = Inr [(''environment'', EnvSlice [''A=1'', ''B=3'']),
          (''env_file'', Seq [Str ''f1'', Str ''f2''])]"
proof -
  let ?lookup = "tableLookup [(''f1'', ''A=2''),
                   (''f2'', CHR ''B'' # CHR ''='' # CHR ''3'' # CHR 0x0A # '' # none'')]"
  let ?sd = "[(''environment'', Seq [Str ''A=1'']), (''env_file'', Seq [Str ''f1'', Str ''f2''])]"
  have h1: "map_of ?sd ''env_file'' = Some (Seq [Str ''f1'', Str ''f2''])"
    by simp
  have h2: "toStringorslice exampleConverters (Seq [Str ''f1'', Str ''f2'']) = Inr [''f1'', ''f2'']"
    by (simp add: eval_converters)
  have h3: "[''f1'', ''f2''] \<noteq> []"
    by simp
  have h4: "\<forall>f\<in>set [''f1'', ''f2'']. loadsCleanly ?lookup ''docker-compose.yml'' f"
    by (simp add: loadsCleanly_def tableLookup_def eval_strings)
  have h5: "explicitEnvironment exampleConverters ?sd = Inr [''A=1'']"
    by (simp add: eval_converters)
  have ev: "fold scanStep (envTexts ?lookup ''docker-compose.yml'' [''f1'', ''f2'']) [''A=1'']
              = [''A=1'', ''B=3'']"
    by (simp add: envTexts_def fileLines_def tableLookup_def eval_strings)
  show ?thesis
    using readEnvFile_precedence [OF h1 h2 h3 h4 h5] ev by simp
qed

text \<open>The claim as worded asks only for an \<^verbatim>\<open>env_file\<close> list that is not empty
  and for lookups that succeed. A file with one line of 65536 bytes is fetched, and
  the scanner then gives up with \<^verbatim>\<open>ErrTooLong\<close>: \<open>readEnvFile\<close> returns that
  error and no environment list.\<close>

theorem readEnvFile_scanner_error:
  "tableLookup [(''big.env'', replicate 65536 CHR ''A'')] ''big.env'' ''docker-compose.yml''
     = Inr (replicate 65536 CHR ''A'', ''big.env'')
   \<and> readEnvFile exampleConverters
         (Some (tableLookup [(''big.env'', replicate 65536 CHR ''A'')]))
         ''docker-compose.yml'' [(''env_file'', Str ''big.env'')]
       = Inl ErrTooLong"
  by (simp add: readEnvFile_def exampleConverters_def asStringorslice_def tableLookup_def
      ScanLines_def Split_no_sep MaxScanTokenSize_def)

section \<open>Properties of mergeConfig\<close>

lemma merge_cases:
  "merge existing v =
     (case (existing, v) of
        (Seq left, Seq right) \<Rightarrow> Seq (left @ right)
      | (Map left, Map right) \<Rightarrow> Map (mergeConfig left right)
      | _ \<Rightarrow> v)"
  by (cases existing; cases v; simp add: mergeConfig_def)

lemma mergeConfig_Nil: "mergeConfig baseService [] = baseService"
  by (simp add: mergeConfig_def)

lemma mergeConfig_Cons:
  "mergeConfig baseService ((k, v) # rest) =
     mergeConfig (case map_of baseService k of
                    Some existing \<Rightarrow> AList.update k (merge existing v) baseService
                  | None \<Rightarrow> AList.update k v baseService) rest"
  by (simp add: mergeConfig_def)

text \<open>Each round of the loop touches the field it visits and no other, so the order
  of the rounds does not show in the result.\<close>

lemma mergeConfig_lookup:
  "distinct (map fst serviceData) \<Longrightarrow>
   map_of (mergeConfig baseService serviceData) k =
     (case map_of serviceData k of
        None \<Rightarrow> map_of baseService k
      | Some v \<Rightarrow>
          (case map_of baseService k of
             None \<Rightarrow> Some v
           | Some existing \<Rightarrow> Some (merge existing v)))"
proof (induction serviceData arbitrary: baseService)
  case Nil
  show ?case by (simp add: mergeConfig_Nil)
next
  case (Cons kv rest)
  obtain k0 v0 where kv: "kv = (k0, v0)" by (cases kv)
  from Cons.prems kv have d: "distinct (map fst rest)" and nin: "map_of rest k0 = None"
    by (auto simp: map_of_eq_None_iff)
  show ?case
    unfolding kv mergeConfig_Cons
    using Cons.IH [OF d] nin
    by (auto simp: update_conv' split: option.splits)
qed

text \<open>The helper sees the two values and not the name of the field: a field of any
  name that holds \<open>existing\<close> and receives \<open>v\<close> ends with \<open>merge existing v\<close>.\<close>

lemma mergeConfig_field_name_irrelevant:
  "map_of (mergeConfig [(k, existing)] [(k, v)]) k = Some (merge existing v)"
  by (simp add: mergeConfig_def)

text \<open>
  C1, as the code has it. In \<open>mergeConfig base incoming\<close>, a field of \<open>incoming\<close>
  that \<open>base\<close> lacks is set as it is, and a field of \<open>base\<close> that \<open>incoming\<close>
  lacks stays. For a field in both, two sequences concatenate, the base elements
  first, and this for every field: \<open>mergeConfig\<close> does not consult \<open>noMerge\<close>,
  so \<^verbatim>\<open>links\<close> and \<^verbatim>\<open>volumes_from\<close> concatenate like the others. Two
  mappings merge key by key by the same rule, and in every other case the incoming
  value wins.
\<close>

theorem mergeConfig_policy:
  assumes "distinct (map fst serviceData)"
  shows "map_of (mergeConfig baseService serviceData) k =
           (case map_of serviceData k of
              None \<Rightarrow> map_of baseService k
            | Some v \<Rightarrow>
                (case map_of baseService k of
                   None \<Rightarrow> Some v
                 | Some existing \<Rightarrow>
                     Some (case (existing, v) of
                             (Seq left, Seq right) \<Rightarrow> Seq (left @ right)
                           | (Map left, Map right) \<Rightarrow> Map (mergeConfig left right)
                           | _ \<Rightarrow> v)))
         \<and> (\<forall>f\<in>set noMerge. \<forall>left right.
               map_of baseService f = Some (Seq left) \<and> map_of serviceData f = Some (Seq right)
               \<longrightarrow> map_of (mergeConfig baseService serviceData) f = Some (Seq (left @ right)))"
proof -
  have eq: "map_of (mergeConfig baseService serviceData) k =
              (case map_of serviceData k of
                 None \<Rightarrow> map_of baseService k
               | Some v \<Rightarrow>
                   (case map_of baseService k of
                      None \<Rightarrow> Some v
                    | Some existing \<Rightarrow> Some (merge existing v)))" for k
    using assms by (rule mergeConfig_lookup)
  show ?thesis
  proof (intro conjI ballI allI impI)
    show "map_of (mergeConfig baseService serviceData) k =
           (case map_of serviceData k of
              None \<Rightarrow> map_of baseService k
            | Some v \<Rightarrow>
                (case map_of baseService k of
                   None \<Rightarrow> Some v
                 | Some existing \<Rightarrow>
                     Some (case (existing, v) of
                             (Seq left, Seq right) \<Rightarrow> Seq (left @ right)
                           | (Map left, Map right) \<Rightarrow> Map (mergeConfig left right)
                           | _ \<Rightarrow> v)))"
      unfolding eq [of k] merge_cases [symmetric] by (rule refl)
  next
    fix f left right
    assume "map_of baseService f = Some (Seq left) \<and> map_of serviceData f = Some (Seq right)"
    then show "map_of (mergeConfig baseService serviceData) f = Some (Seq (left @ right))"
      by (simp add: eq [of f])
  qed
qed

theorem mergeConfig_policy_witness:
  "distinct (map fst [(''ports'', Seq [Num 8080]), (''image'', Str ''nginx'')])
   \<and> map_of (mergeConfig [(''ports'', Seq [Num 80]), (''image'', Str ''busybox'')]
                [(''ports'', Seq [Num 8080]), (''image'', Str ''nginx'')]) ''ports''
       = Some (Seq [Num 80, Num 8080])"
  using mergeConfig_policy
    [of "[(''ports'', Seq [Num 8080]), (''image'', Str ''nginx'')]"
        "[(''ports'', Seq [Num 80]), (''image'', Str ''busybox'')]" "''ports''"]
  by simp

text \<open>The example of the specification for a field of \<open>noMerge\<close>: the base has
  \<^verbatim>\<open>links: [y]\<close>, the incoming manifest \<^verbatim>\<open>links: [x]\<close>. The result is not
  \<^verbatim>\<open>[x]\<close>.\<close>

theorem mergeConfig_links_concatenate:
  "map_of (mergeConfig [(''links'', Seq [Str ''y''])] [(''links'', Seq [Str ''x''])]) ''links''
     = Some (Seq [Str ''y'', Str ''x''])
   \<and> map_of (mergeConfig [(''links'', Seq [Str ''y''])] [(''links'', Seq [Str ''x''])]) ''links''
     \<noteq> Some (Seq [Str ''x''])"
  by (simp add: mergeConfig_def)

section \<open>Properties of the extends normaliser\<close>

lemma extendsFields_closed:
  "(''extends'', Null) \<notin> set data \<Longrightarrow>
   extendsFields data = Inr (map (\<lambda>(key, value). (key, canonicalExtends key value)) data)"
proof (induction data)
  case Nil
  show ?case by simp
next
  case (Cons kv rest)
  obtain key "value" where kv: "kv = (key, value)" by (cases kv)
  from Cons.prems kv have rest: "(''extends'', Null) \<notin> set rest"
    and here: "key = ''extends'' \<longrightarrow> value \<noteq> Null" by auto
  show ?case
    unfolding kv using Cons.IH [OF rest] here
    by (cases "value") (simp_all add: kindIsString_def canonicalExtends_def)
qed

lemma normalizeExtends_closed:
  "\<forall>(service, data)\<in>set services. (''extends'', Null) \<notin> set data \<Longrightarrow>
   normalizeExtends services =
     Inr (map (\<lambda>(service, data).
                 (service, map (\<lambda>(key, value). (key, canonicalExtends key value)) data))
              services)"
proof (induction services)
  case Nil
  show ?case by simp
next
  case (Cons sd rest)
  obtain service data where sd: "sd = (service, data)" by (cases sd)
  from Cons.prems sd have rest: "\<forall>(service, data)\<in>set rest. (''extends'', Null) \<notin> set data"
    and here: "(''extends'', Null) \<notin> set data" by auto
  show ?case
    unfolding sd using Cons.IH [OF rest] extendsFields_closed [OF here] by simp
qed

lemma map_of_map_entry:
  "map_of (map (\<lambda>(k, v). (k, f k v)) kvs) k = map_option (f k) (map_of kvs k)"
  by (induction kvs) auto

lemma extendsFields_same_shape:
  "extendsFields (before @ (''extends'', Str name) # after)
     = extendsFields (before @ (''extends'', Map [(''service'', Str name)]) # after)"
  by (induction before) (auto simp: kindIsString_def split: sum.splits)

lemma normalizeExtends_same_shape:
  "normalizeExtends (pre @ (service, before @ (''extends'', Str name) # after) # post)
     = normalizeExtends
         (pre @ (service, before @ (''extends'', Map [(''service'', Str name)]) # after) # post)"
  by (induction pre) (auto simp: extendsFields_same_shape split: sum.splits)

text \<open>A null \<^verbatim>\<open>extends\<close> value makes the type test panic.\<close>

lemma normalizeExtends_null_panics:
  "normalizeExtends [(''web'', [(''extends'', Null)])]
     = Inl ''runtime error: invalid memory address or nil pointer dereference''"
  by (simp add: kindIsString_def)

text \<open>
  The pass where it reaches its end, which it does when no \<^verbatim>\<open>extends\<close> field
  holds the YAML null: for every service whose \<^verbatim>\<open>extends\<close> field holds a bare
  string, the value is rewritten in place to the mapping
  \<^verbatim>\<open>{service: <that string>}\<close>; an \<^verbatim>\<open>extends\<close> value that is a mapping
  already stays as it is, as do all other fields, the names of the services and the
  names of their fields. So a manifest with the shorthand and the same manifest with
  the structured form normalise to the same result.
\<close>

lemma normalizeExtends_shorthand:
  assumes "\<forall>(service, data)\<in>set services. (''extends'', Null) \<notin> set data"
  shows "(\<exists>normalized. normalizeExtends services = Inr normalized
           \<and> map fst normalized = map fst services
           \<and> (\<forall>service data. map_of services service = Some data \<longrightarrow>
                (\<exists>data'. map_of normalized service = Some data'
                   \<and> map fst data' = map fst data
                   \<and> (\<forall>name. map_of data ''extends'' = Some (Str name) \<longrightarrow>
                         map_of data' ''extends'' = Some (Map [(''service'', Str name)]))
                   \<and> (\<forall>m. map_of data ''extends'' = Some (Map m) \<longrightarrow>
                         map_of data' ''extends'' = Some (Map m))
                   \<and> (\<forall>key. key \<noteq> ''extends'' \<longrightarrow> map_of data' key = map_of data key))))
         \<and> normalizeExtends (pre @ (svc, before @ (''extends'', Str base) # after) # post)
             = normalizeExtends
                 (pre @ (svc, before @ (''extends'', Map [(''service'', Str base)]) # after) # post)"
proof -
  let ?f = "\<lambda>(service :: string) data. map (\<lambda>(key, value). (key, canonicalExtends key value)) data"
  let ?n = "map (\<lambda>(service, data). (service, ?f service data)) services"
  have eq: "normalizeExtends services = Inr ?n"
    using normalizeExtends_closed [OF assms] .
  have keys: "map fst ?n = map fst services"
    by (induction services) auto
  have look: "map_of ?n service = map_option (?f service) (map_of services service)" for service
    by (rule map_of_map_entry)
  have fld: "map_of (?f service data) key = map_option (canonicalExtends key) (map_of data key)"
    for service data key
    using map_of_map_entry [of canonicalExtends data key] by simp
  have fkeys: "map fst (?f service data) = map fst data" for service data
    by (induction data) auto
  have other: "key \<noteq> ''extends'' \<Longrightarrow> map_option (canonicalExtends key) x = x" for key x
    by (cases x) (auto simp: canonicalExtends_def split: yaml.splits)
  have first: "\<exists>normalized. normalizeExtends services = Inr normalized
           \<and> map fst normalized = map fst services
           \<and> (\<forall>service data. map_of services service = Some data \<longrightarrow>
                (\<exists>data'. map_of normalized service = Some data'
                   \<and> map fst data' = map fst data
                   \<and> (\<forall>name. map_of data ''extends'' = Some (Str name) \<longrightarrow>
                         map_of data' ''extends'' = Some (Map [(''service'', Str name)]))
                   \<and> (\<forall>m. map_of data ''extends'' = Some (Map m) \<longrightarrow>
                         map_of data' ''extends'' = Some (Map m))
                   \<and> (\<forall>key. key \<noteq> ''extends'' \<longrightarrow> map_of data' key = map_of data key)))"
  proof (intro exI conjI allI impI)
    show "normalizeExtends services = Inr ?n" by (rule eq)
    show "map fst ?n = map fst services" by (rule keys)
  next
    fix service data assume "map_of services service = Some data"
    then show "map_of ?n service = Some (?f service data)" by (simp add: look)
  next
    fix service data show "map fst (?f service data) = map fst data" by (rule fkeys)
  next
    fix service data name assume "map_of data ''extends'' = Some (Str name)"
    then show "map_of (?f service data) ''extends'' = Some (Map [(''service'', Str name)])"
      unfolding fld by (simp add: canonicalExtends_def)
  next
    fix service data m assume "map_of data ''extends'' = Some (Map m)"
    then show "map_of (?f service data) ''extends'' = Some (Map m)"
      unfolding fld by (simp add: canonicalExtends_def)
  next
    fix service data key assume "key \<noteq> ''extends''"
    then show "map_of (?f service data) key = map_of data key"
      unfolding fld by (simp add: other)
  qed
  show ?thesis
    using first normalizeExtends_same_shape [of pre svc before base after post] by blast
qed

lemma normalizeExtends_shorthand_example:
  "normalizeExtends
     [(''web'', [(''image'', Str ''nginx''), (''extends'', Str ''base'')]),
      (''worker'', [(''extends'', Map [(''service'', Str ''base'')])])]
   = Inr [(''web'', [(''image'', Str ''nginx''), (''extends'', Map [(''service'', Str ''base'')])]),
          (''worker'', [(''extends'', Map [(''service'', Str ''base'')])])]"
  using normalizeExtends_shorthand
    [of "[(''web'', [(''image'', Str ''nginx''), (''extends'', Str ''base'')]),
          (''worker'', [(''extends'', Map [(''service'', Str ''base'')])])]"
        "[]" "''web''" "[]" "''base''" "[]" "[]"]
  by (simp add: kindIsString_def)

section \<open>Properties of Merge\<close>

lemmas eval_Merge =
  Merge_def CreateConfig_def exampleCollaborators_def exampleManifest_def defaultParseOptions_def
  interpolateStage_def interpolateMap_def runHook_def adjustValues_def failure_def Let_def
  getComposeMajorVersion_def Atoi_def isDigit_def digitVal_def intSize_def

lemma interpolateStage_Version:
  "interpolateStage D opts env raw cfg = Inr (raw', cfg') \<Longrightarrow> Version cfg' = Version cfg"
  by (auto simp: interpolateStage_def split: if_splits sum.splits)

lemma Merge_failed_services:
  assumes "Merge D existingServices environmentLookup resourceLookup file bytes options
             = Returned (version, services, volumes, networks, Some err)"
  shows "services = None"
  using assms
  by (auto simp: Merge_def failure_def Let_def split: sum.splits if_splits prod.splits)

lemma Merge_success_services:
  assumes "Merge D existingServices environmentLookup resourceLookup file bytes options
             = Returned (version, services, volumes, networks, None)"
  shows "\<exists>merged. runHook (Postprocess (optionsOrDefault options)) (adjustValues merged)
                    = Inr services"
  using assms
  by (auto simp: Merge_def failure_def Let_def optionsOrDefault_def
           split: sum.splits if_splits prod.splits)

subsection \<open>The extends pass in Merge\<close>

text \<open>\<open>Merge\<close> runs the pass on the services of the parsed manifest. A panic of the
  pass is the end of the call; otherwise the normalised services are what the later
  stages get, here the \<^verbatim>\<open>Preprocess\<close> hook of a call without interpolation.\<close>

lemma Merge_extends_panic:
  assumes "CreateConfig D bytes = Inr config0"
    and "normalizeExtends (Services config0) = Inl p"
  shows "Merge D existingServices environmentLookup resourceLookup file bytes options = Panicked p"
  using assms by (simp add: Merge_def Let_def)

lemma Merge_hands_on_normalized:
  assumes "CreateConfig D bytes = Inr config0"
    and "normalizeExtends (Services config0) = Inr normalized"
    and "Interpolate opts = False"
    and "Preprocess opts = Some hook"
    and "hook normalized = Inl err"
  shows "Merge D existingServices environmentLookup resourceLookup file bytes (Some opts)
           = failure err"
  using assms by (simp add: Merge_def Let_def interpolateStage_def runHook_def)

text \<open>
  C5. Before the merge, every service whose \<^verbatim>\<open>extends\<close> field holds a bare string
  is to have the value rewritten in place to the mapping
  \<^verbatim>\<open>{service: <that string>}\<close>, a value in structured form staying untouched.
  The pass decides the form of a value with \<^verbatim>\<open>reflect.TypeOf(value).Kind()\<close>,
  which panics on the YAML null. For a manifest where the service \<^verbatim>\<open>web\<close> has the
  shorthand \<^verbatim>\<open>extends: base\<close> and the service \<^verbatim>\<open>db\<close> an \<^verbatim>\<open>extends\<close> field
  without a value, \<open>Merge\<close> panics in the pass: no stage after it runs, and the
  shorthand of \<^verbatim>\<open>web\<close> reaches no merge in its structured form.
\<close>

theorem Merge_null_extends_panics:
  "Merge (exampleCollaborators
            (Inr (exampleManifest ''2''
                    [(''web'', [(''extends'', Str ''base'')]), (''db'', [(''extends'', Null)])]))
            (None :: unit svcmap))
         [] (\<lambda>name. None) None ''docker-compose.yml'' ''version: 2'' None
     = Panicked ''runtime error: invalid memory address or nil pointer dereference''"
  by (simp add: eval_Merge kindIsString_def)

subsection \<open>Errors\<close>

text \<open>
  C7. Whenever \<open>Merge\<close> returns an error that is not nil, it returns no partial
  result with it: the version string is empty, and the maps of the service, the
  volume and the network configurations are all nil.
\<close>

theorem Merge_error_no_partial_result:
  assumes "Merge D existingServices environmentLookup resourceLookup file bytes options
             = Returned (version, services, volumes, networks, Some err)"
  shows "version = [] \<and> services = None \<and> volumes = None \<and> networks = None"
  using assms
  by (auto simp: Merge_def failure_def Let_def split: sum.splits if_splits prod.splits)

theorem Merge_error_no_partial_result_witness:
  "Merge (exampleCollaborators (Inr (exampleManifest ''1.2.3'' [])) (None :: unit svcmap))
         [] (\<lambda>name. None) None ''docker-compose.yml'' ''version: 1.2.3'' None
     = Returned ('''', None, None, None,
         Some (Errorf ''Invalid version string, expected single integer or dot delimited int.int. Got: 1.2.3''))
   \<and> ('''' :: string) = [] \<and> (None :: unit svcmap) = None
   \<and> (None :: VolumeConfig gomap) = None \<and> (None :: NetworkConfig gomap) = None"
proof -
  have ret:
    "Merge (exampleCollaborators (Inr (exampleManifest ''1.2.3'' [])) (None :: unit svcmap))
         [] (\<lambda>name. None) None ''docker-compose.yml'' ''version: 1.2.3'' None
     = Returned ('''', None, None, None,
         Some (Errorf ''Invalid version string, expected single integer or dot delimited int.int. Got: 1.2.3''))"
    by (simp add: eval_Merge)
  show ?thesis
    using ret Merge_error_no_partial_result [OF ret] by simp
qed

subsection \<open>Default options\<close>

text \<open>
  C10. A call of \<open>Merge\<close> with nil options behaves exactly as the call with the
  options \<^verbatim>\<open>{Interpolate: true, Validate: true}\<close> and no hook before or after.
  In particular the interpolation runs: once the manifest is parsed and the extends
  pass is through, an error of the interpolation of the raw services is the error
  that \<open>Merge\<close> returns; and for a manifest of major version 2 the interpolated
  services go straight to \<^verbatim>\<open>MergeServicesV2\<close> together with these options, the
  interpolated volumes and networks go to their conversions, and the adjusted
  services are returned as they are, no hook having run.
\<close>

theorem Merge_nil_options:
  "Merge D existingServices environmentLookup resourceLookup file bytes None
     = Merge D existingServices environmentLookup resourceLookup file bytes
         (Some \<lparr>Interpolate = True, Validate = True, Preprocess = None, Postprocess = None\<rparr>)
   \<and> (\<forall>config0 normalized.
         CreateConfig D bytes = Inr config0 \<and> normalizeExtends (Services config0) = Inr normalized
         \<longrightarrow>
           (\<forall>err. InterpolateRawServiceMap D normalized environmentLookup = Inl err
                  \<longrightarrow> Merge D existingServices environmentLookup resourceLookup file bytes None
                        = failure err)
         \<and> (\<forall>raw vols nets services volumes networks.
                InterpolateRawServiceMap D normalized environmentLookup = Inr raw
              \<and> interpolateMap (Interpolate_fn D) environmentLookup (Volumes config0) = Inr vols
              \<and> interpolateMap (Interpolate_fn D) environmentLookup (Networks config0) = Inr nets
              \<and> getComposeMajorVersion (Version config0) = Inr 2
              \<and> MergeServicesV2 D existingServices environmentLookup resourceLookup file raw
                   \<lparr>Interpolate = True, Validate = True, Preprocess = None, Postprocess = None\<rparr>
                   = Inr services
              \<and> ConvertVolumes D vols = Inr volumes
              \<and> ConvertNetworks D nets = Inr networks
              \<longrightarrow> Merge D existingServices environmentLookup resourceLookup file bytes None
                    = Returned (Version config0, adjustValues services, volumes, networks, None)))"
  by (auto simp: Merge_def Let_def defaultParseOptions_def interpolateStage_def runHook_def)

text \<open>A manifest of version 2 whose only service has an image with an unfinished
  variable reference, and an interpolation that rejects it: with nil options the call
  fails with the error of the interpolation.\<close>

theorem Merge_nil_options_witness:
  "CreateConfig
       ((exampleCollaborators
           (Inr (exampleManifest ''2'' [(''web'', [(''image'', Str ''nginx:${TAG'')])]))
           (None :: unit svcmap))
          \<lparr>Interpolate_fn := (\<lambda>key value environmentLookup.
              if value = Str ''nginx:${TAG''
              then Inl (Errorf ''Invalid interpolation format for image option'')
              else Inr value)\<rparr>)
       ''version: 2''
     = Inr \<lparr>Version = ''2'', Services = [(''web'', [(''image'', Str ''nginx:${TAG'')])],
            Volumes = Some [], Networks = Some []\<rparr>
   \<and> Merge
       ((exampleCollaborators
           (Inr (exampleManifest ''2'' [(''web'', [(''image'', Str ''nginx:${TAG'')])]))
           (None :: unit svcmap))
          \<lparr>Interpolate_fn := (\<lambda>key value environmentLookup.
              if value = Str ''nginx:${TAG''
              then Inl (Errorf ''Invalid interpolation format for image option'')
              else Inr value)\<rparr>)
       [] (\<lambda>name. None) None ''docker-compose.yml'' ''version: 2'' None
     = Returned ('''', None, None, None,
         Some (Errorf ''Invalid interpolation format for image option''))"
proof -
  let ?D = "(exampleCollaborators
           (Inr (exampleManifest ''2'' [(''web'', [(''image'', Str ''nginx:${TAG'')])]))
           (None :: unit svcmap))
          \<lparr>Interpolate_fn := (\<lambda>key value environmentLookup.
              if value = Str ''nginx:${TAG''
              then Inl (Errorf ''Invalid interpolation format for image option'')
              else Inr value)\<rparr>"
  let ?c = "\<lparr>Version = ''2'', Services = [(''web'', [(''image'', Str ''nginx:${TAG'')])],
            Volumes = Some [], Networks = Some []\<rparr>"
  have h1: "CreateConfig ?D ''version: 2'' = Inr ?c"
    by (simp add: eval_Merge)
  have h2: "normalizeExtends (Services ?c) = Inr [(''web'', [(''image'', Str ''nginx:${TAG'')])]"
    by simp
  have h3: "InterpolateRawServiceMap ?D [(''web'', [(''image'', Str ''nginx:${TAG'')])]
              (\<lambda>name. None)
            = Inl (Errorf ''Invalid interpolation format for image option'')"
    by (simp add: exampleCollaborators_def)
  have "Merge ?D [] (\<lambda>name. None) None ''docker-compose.yml'' ''version: 2'' None
          = failure (Errorf ''Invalid interpolation format for image option'')"
    using h1 h2 h3
      Merge_nil_options [of ?D "[]" "\<lambda>name. None" None "''docker-compose.yml''" "''version: 2''"]
    by blast
  with h1 show ?thesis by (simp add: failure_def)
qed

subsection \<open>Version 3\<close>

text \<open>
  C3, as the code has it. For a manifest whose declared version classifies as major
  version 3, \<open>Merge\<close> never returns a result without an error, and it returns no
  error for the version either: when the stages before the dispatch succeed (the
  extends pass, the interpolation and the \<^verbatim>\<open>Preprocess\<close> hook), the call does
  not return at all. \<^verbatim>\<open>logrus.Fatal\<close> logs that version 3 is not yet
  implemented and ends the process.
\<close>

theorem Merge_version3_exits:
  assumes "CreateConfig D bytes = Inr config0"
    and "getComposeMajorVersion (Version config0) = Inr 3"
  shows "(\<forall>version services volumes networks.
            Merge D existingServices environmentLookup resourceLookup file bytes options
              \<noteq> Returned (version, services, volumes, networks, None))
         \<and> (\<forall>normalized interpolated config raw.
               normalizeExtends (Services config0) = Inr normalized
               \<and> interpolateStage D (optionsOrDefault options) environmentLookup normalized config0
                   = Inr (interpolated, config)
               \<and> runHook (Preprocess (optionsOrDefault options)) interpolated = Inr raw
               \<longrightarrow> Merge D existingServices environmentLookup resourceLookup file bytes options
                     = Exited ''Note: Compose file version 3 is not yet implemented'')"
proof (intro conjI allI impI)
  fix version services volumes networks
  show "Merge D existingServices environmentLookup resourceLookup file bytes options
          \<noteq> Returned (version, services, volumes, networks, None)"
    using assms interpolateStage_Version [of D _ environmentLookup _ config0]
    by (auto simp: Merge_def failure_def Let_def split: sum.splits if_splits prod.splits)
next
  fix normalized interpolated config raw
  assume st: "normalizeExtends (Services config0) = Inr normalized
               \<and> interpolateStage D (optionsOrDefault options) environmentLookup normalized config0
                   = Inr (interpolated, config)
               \<and> runHook (Preprocess (optionsOrDefault options)) interpolated = Inr raw"
  then have "Version config = Version config0"
    using interpolateStage_Version by blast
  with st assms
  show "Merge D existingServices environmentLookup resourceLookup file bytes options
          = Exited ''Note: Compose file version 3 is not yet implemented''"
    by (simp add: Merge_def Let_def optionsOrDefault_def)
qed

theorem Merge_version3_exits_witness:
  "CreateConfig (exampleCollaborators (Inr (exampleManifest ''3'' [])) (None :: unit svcmap))
       ''version: 3''
     = Inr \<lparr>Version = ''3'', Services = [], Volumes = Some [], Networks = Some []\<rparr>
   \<and> getComposeMajorVersion ''3'' = Inr 3
   \<and> Merge (exampleCollaborators (Inr (exampleManifest ''3'' [])) (None :: unit svcmap))
         [] (\<lambda>name. None) None ''docker-compose.yml'' ''version: 3'' None
     = Exited ''Note: Compose file version 3 is not yet implemented''"
proof -
  let ?D = "exampleCollaborators (Inr (exampleManifest ''3'' [])) (None :: unit svcmap)"
  let ?c = "\<lparr>Version = ''3'', Services = [], Volumes = Some [], Networks = Some []\<rparr>"
  have h1: "CreateConfig ?D ''version: 3'' = Inr ?c"
    by (simp add: eval_Merge)
  have h2: "getComposeMajorVersion (Version ?c) = Inr 3"
    by (simp add: eval_Merge)
  have h3: "normalizeExtends (Services ?c) = Inr []"
    by simp
  have h4: "interpolateStage ?D (optionsOrDefault None) (\<lambda>name. None) [] ?c = Inr ([], ?c)"
    by (simp add: eval_Merge optionsOrDefault_def)
  have h5: "runHook (Preprocess (optionsOrDefault None :: unit ParseOptions)) [] = Inr []"
    by (simp add: eval_Merge optionsOrDefault_def)
  show ?thesis
    using h1 h2 h3 h4 h5
      Merge_version3_exits [OF h1 h2, of "[]" "\<lambda>name. None" None "''docker-compose.yml''" None]
    by auto
qed

text \<open>The claim as worded has \<open>Merge\<close> return an error to its caller. With a
  manifest of version 3.0 and options that switch the interpolation off, the call
  ends the process and returns nothing.\<close>

theorem Merge_version3_returns_no_error:
  "Merge (exampleCollaborators
            (Inr (exampleManifest ''3.0'' [(''web'', [(''image'', Str ''nginx'')])]))
            (None :: unit svcmap))
         [] (\<lambda>name. None) None ''docker-compose.yml'' ''version: 3.0''
         (Some \<lparr>Interpolate = False, Validate = True, Preprocess = None, Postprocess = None\<rparr>)
     = Exited ''Note: Compose file version 3 is not yet implemented''"
  by (simp add: eval_Merge)

subsection \<open>The restart policy\<close>

lemma adjustValues_entries:
  "entries (adjustValues configs) =
     map (\<lambda>(name, config).
            (name, if Restart config = ''false'' then config\<lparr>Restart := ''no''\<rparr> else config))
         (entries configs)"
  by (cases configs) (simp_all add: adjustValues_def entries_def)

lemma adjustValues_no_false:
  "\<forall>(name, config)\<in>set (entries (adjustValues configs)). Restart config \<noteq> ''false''"
  unfolding adjustValues_entries by (auto split: if_splits)

text \<open>
  C6, as the code has it. The adjustment pass rewrites the restart policy
  \<^verbatim>\<open>"false"\<close> of every service to \<^verbatim>\<open>"no"\<close> and changes nothing else, so no
  service leaves the pass with the policy \<^verbatim>\<open>"false"\<close>. The \<^verbatim>\<open>Postprocess\<close>
  hook runs after the pass: when no such hook is configured, no service
  configuration that \<open>Merge\<close> returns has the restart policy \<^verbatim>\<open>"false"\<close>.
\<close>

theorem adjustValues_restart:
  "entries (adjustValues configs) =
     map (\<lambda>(name, config).
            (name, if Restart config = ''false'' then config\<lparr>Restart := ''no''\<rparr> else config))
         (entries configs)
   \<and> (\<forall>(name, config)\<in>set (entries (adjustValues configs)). Restart config \<noteq> ''false'')
   \<and> (Postprocess (optionsOrDefault options) = None
        \<and> Merge D existingServices environmentLookup resourceLookup file bytes options
            = Returned (version, services, volumes, networks, e)
        \<longrightarrow> (\<forall>(name, config)\<in>set (entries services). Restart config \<noteq> ''false''))"
proof (intro conjI impI)
  show "entries (adjustValues configs) =
     map (\<lambda>(name, config).
            (name, if Restart config = ''false'' then config\<lparr>Restart := ''no''\<rparr> else config))
         (entries configs)"
    by (rule adjustValues_entries)
  show "\<forall>(name, config)\<in>set (entries (adjustValues configs)). Restart config \<noteq> ''false''"
    by (rule adjustValues_no_false)
next
  assume a: "Postprocess (optionsOrDefault options) = None
        \<and> Merge D existingServices environmentLookup resourceLookup file bytes options
            = Returned (version, services, volumes, networks, e)"
  show "\<forall>(name, config)\<in>set (entries services). Restart config \<noteq> ''false''"
  proof (cases e)
    case (Some err)
    with a have "services = None" using Merge_failed_services by blast
    then show ?thesis by (simp add: entries_def)
  next
    case None
    with a obtain merged where
      "runHook (Postprocess (optionsOrDefault options)) (adjustValues merged) = Inr services"
      using Merge_success_services by blast
    with a have "services = adjustValues merged" by (simp add: runHook_def)
    then show ?thesis using adjustValues_no_false by blast
  qed
qed

theorem adjustValues_restart_witness:
  "Postprocess (optionsOrDefault None :: unit ParseOptions) = None
   \<and> Merge (exampleCollaborators (Inr (exampleManifest ''2'' []))
              (Some [(''web'', \<lparr>Restart = ''false''\<rparr>), (''db'', \<lparr>Restart = ''always''\<rparr>)]))
           [] (\<lambda>name. None) None ''docker-compose.yml'' ''version: 2'' None
       = Returned (''2'', Some [(''web'', \<lparr>Restart = ''no''\<rparr>), (''db'', \<lparr>Restart = ''always''\<rparr>)],
                   Some [], Some [], None)
   \<and> Restart \<lparr>Restart = ''no''\<rparr> \<noteq> ''false''
   \<and> Restart \<lparr>Restart = ''always''\<rparr> \<noteq> ''false''"
proof -
  let ?D = "exampleCollaborators (Inr (exampleManifest ''2'' []))
              (Some [(''web'', \<lparr>Restart = ''false''\<rparr>), (''db'', \<lparr>Restart = ''always''\<rparr>)])"
  let ?out = "Some [(''web'', \<lparr>Restart = ''no''\<rparr>), (''db'', \<lparr>Restart = ''always''\<rparr>)]"
  have h1: "Postprocess (optionsOrDefault None :: unit ParseOptions) = None"
    by (simp add: optionsOrDefault_def defaultParseOptions_def)
  have h2: "Merge ?D [] (\<lambda>name. None) None ''docker-compose.yml'' ''version: 2'' None
              = Returned (''2'', ?out, Some [], Some [], None)"
    by (simp add: eval_Merge)
  show ?thesis
    using h1 h2
      adjustValues_restart [of None None ?D "[]" "\<lambda>name. None" None "''docker-compose.yml''"
        "''version: 2''" "''2''" ?out "Some []" "Some []" None]
    by (simp add: entries_def)
qed

text \<open>The claim as worded lets no returned service configuration ever end with the
  policy \<^verbatim>\<open>"false"\<close>. A \<^verbatim>\<open>Postprocess\<close> hook that sets every restart policy to
  \<^verbatim>\<open>"false"\<close> runs after the adjustment pass, and \<open>Merge\<close> returns what the hook
  returns.\<close>

theorem Merge_postprocess_after_adjustValues:
  "Merge (exampleCollaborators (Inr (exampleManifest ''2'' []))
            (Some [(''web'', \<lparr>Restart = ''false''\<rparr>)]))
         [] (\<lambda>name. None) None ''docker-compose.yml'' ''version: 2''
         (Some \<lparr>Interpolate = True, Validate = True, Preprocess = None,
                Postprocess = Some (\<lambda>configs.
                  Inr (map_option
                         (map (\<lambda>(name, config). (name, config\<lparr>Restart := ''false''\<rparr>)))
                         configs))\<rparr>)
     = Returned (''2'', Some [(''web'', \<lparr>Restart = ''false''\<rparr>)], Some [], Some [], None)"
  by (simp add: eval_Merge)

section \<open>Further facts about the error paths\<close>

text \<open>An \<^verbatim>\<open>environment\<close> field that does not convert makes \<open>readEnvFile\<close> fail
  with the error of the conversion, before any file is fetched.\<close>

lemma readEnvFile_environment_error:
  assumes "map_of serviceData ''env_file'' = Some ef"
    and "toStringorslice cv ef = Inr envFiles"
    and "envFiles \<noteq> []"
    and "map_of serviceData ''environment'' = Some e"
    and "toMaporEqualSlice cv e = Inl err"
  shows "readEnvFile cv (Some lookup) inFile serviceData = Inl err"
  using assms by (simp add: readEnvFile_def)

end
